theory Spec2Isabelle
  imports Complex_Main
begin

section \<open>The ROI counter of rtsp\_roi\_counter.py\<close>

text \<open>
  A shallow embedding of \<^verbatim>\<open>src/rtsp_roi_counter.py\<close>: the region of interest and its
  overlap test, the rolling performance monitor, the scan of one frame's detections in
  the buffer probe, and the run of the pipeline with its exit code.

  Python floats are modelled as \<^typ>\<open>real\<close> (no rounding error, no NaN, no infinity),
  Python integers as \<^typ>\<open>int\<close>, a \<^verbatim>\<open>deque(maxlen=n)\<close> as a list with its bound,
  exceptions as values. What the GStreamer and Hailo bindings return is an input of the
  model.
\<close>

subsection \<open>Region of interest (lines 26-55)\<close>

definition COCO_PERSON :: int where
  "COCO_PERSON = 0"

definition COCO_VEHICLES :: "int list" where
  "COCO_VEHICLES = [2, 3, 5, 7]"

datatype error = TypeError | FileNotFoundError

record ROI =
  x1 :: real
  y1 :: real
  x2 :: real
  y2 :: real
  name :: string

text \<open>
  The constructor that \<^verbatim>\<open>@dataclass\<close> generates: the four coordinates are required
  (a missing one is a \<^verbatim>\<open>TypeError\<close>), \<^verbatim>\<open>name\<close> defaults to \<^verbatim>\<open>"default"\<close>. The class has no
  \<^verbatim>\<open>__post_init__\<close>; line 154 calls it as \<^verbatim>\<open>ROI(**self.config['roi'])\<close>.
\<close>

definition ROI_init ::
  "real option \<Rightarrow> real option \<Rightarrow> real option \<Rightarrow> real option \<Rightarrow> string option \<Rightarrow> error + ROI" where
  "ROI_init a b c d n =
     (case (a, b, c, d) of
        (Some xa, Some ya, Some xb, Some yb) \<Rightarrow>
          Inr \<lparr>x1 = xa, y1 = ya, x2 = xb, y2 = yb,
               name = (case n of None \<Rightarrow> ''default'' | Some s \<Rightarrow> s)\<rparr>
      | _ \<Rightarrow> Inl TypeError)"

definition contains_bbox :: "ROI \<Rightarrow> real \<Rightarrow> real \<Rightarrow> real \<Rightarrow> real \<Rightarrow> real \<Rightarrow> real \<Rightarrow> bool" where
  "contains_bbox self bbox_x1 bbox_y1 bbox_x2 bbox_y2 frame_width frame_height =
     (let roi_abs_x1 = x1 self * frame_width;
          roi_abs_y1 = y1 self * frame_height;
          roi_abs_x2 = x2 self * frame_width;
          roi_abs_y2 = y2 self * frame_height
      in if bbox_x2 < roi_abs_x1 \<or> bbox_x1 > roi_abs_x2 \<or>
            bbox_y2 < roi_abs_y1 \<or> bbox_y1 > roi_abs_y2
         then False
         else True)"

subsection \<open>Performance monitor (lines 57-99)\<close>

record DetectionStats =
  timestamp :: real
  person_count :: int
  vehicle_count :: int
  total_detections :: int
  processing_time_ms :: real
  roi_name :: string

text \<open>
  \<^verbatim>\<open>deque.append\<close> on a deque with \<^verbatim>\<open>maxlen\<close>: the item is appended on the right, then
  one item is dropped on the left when the bound is exceeded.
\<close>

definition deque_append :: "nat \<Rightarrow> 'a list \<Rightarrow> 'a \<Rightarrow> 'a list" where
  "deque_append maxlen xs x =
     (let ys = xs @ [x] in if length ys > maxlen then tl ys else ys)"

record PerformanceMonitor =
  window_size :: nat
  frame_times :: "real list"
  detection_stats :: "DetectionStats list"

definition PerformanceMonitor_init :: "nat \<Rightarrow> PerformanceMonitor" where
  "PerformanceMonitor_init n = \<lparr>window_size = n, frame_times = [], detection_stats = []\<rparr>"

definition add_frame_time :: "PerformanceMonitor \<Rightarrow> real \<Rightarrow> PerformanceMonitor" where
  "add_frame_time self time_ms =
     self\<lparr>frame_times := deque_append (window_size self) (frame_times self) time_ms\<rparr>"

definition add_detection :: "PerformanceMonitor \<Rightarrow> DetectionStats \<Rightarrow> PerformanceMonitor" where
  "add_detection self stats =
     self\<lparr>detection_stats := deque_append (window_size self) (detection_stats self) stats\<rparr>"

text \<open>
  Lines 359-360: a sample enters the monitor through both calls, its interval into
  \<^verbatim>\<open>frame_times\<close> and the sample into \<^verbatim>\<open>detection_stats\<close>.
\<close>

definition record_sample :: "PerformanceMonitor \<Rightarrow> DetectionStats \<Rightarrow> PerformanceMonitor" where
  "record_sample self stats =
     add_detection (add_frame_time self (processing_time_ms stats)) stats"

text \<open>
  Python's \<^verbatim>\<open>round(x, ndigits)\<close> on a float: to the nearest multiple of
  \<open>10 ^ -ndigits\<close>, a tie going to the even one.
\<close>

definition round_half_even :: "real \<Rightarrow> int" where
  "round_half_even y =
     (let f = \<lfloor>y\<rfloor>; d = y - of_int f
      in if d < 1 / 2 then f
         else if d > 1 / 2 then f + 1
         else if even f then f else f + 1)"

definition py_round :: "real \<Rightarrow> nat \<Rightarrow> real" where
  "py_round x ndigits = of_int (round_half_even (x * 10 ^ ndigits)) / 10 ^ ndigits"

text \<open>The slice \<^verbatim>\<open>xs[-n:]\<close> for \<open>n > 0\<close>.\<close>

definition last_n :: "nat \<Rightarrow> 'a list \<Rightarrow> 'a list" where
  "last_n n xs = drop (length xs - n) xs"

record stats_dict =
  avg_processing_time_ms :: real
  fps :: real
  total_frames :: nat
  recent_person_count :: real
  recent_vehicle_count :: real

text \<open>\<^verbatim>\<open>get_stats\<close>; the empty dictionary of line 85 is \<open>None\<close>.\<close>

definition get_stats :: "PerformanceMonitor \<Rightarrow> stats_dict option" where
  "get_stats self =
     (if frame_times self = [] then None
      else
        let avg_time = sum_list (frame_times self) / real (length (frame_times self));
            fps_v = (if avg_time > 0 then 1000 / avg_time else 0);
            recent_persons = map person_count (last_n 10 (detection_stats self));
            recent_vehicles = map vehicle_count (last_n 10 (detection_stats self))
        in Some \<lparr>avg_processing_time_ms = py_round avg_time 2,
                 fps = py_round fps_v 2,
                 total_frames = length (frame_times self),
                 recent_person_count =
                   (if recent_persons \<noteq> []
                    then real_of_int (sum_list recent_persons) / real (length recent_persons)
                    else 0),
                 recent_vehicle_count =
                   (if recent_vehicles \<noteq> []
                    then real_of_int (sum_list recent_vehicles) / real (length recent_vehicles)
                    else 0)\<rparr>)"

subsection \<open>Detections as the Hailo binding hands them over\<close>

text \<open>
  What the probe asks of a detection object: \<^verbatim>\<open>get_class_id\<close> (the attribute may be
  missing, the call may raise, or it returns \<^verbatim>\<open>None\<close> or an integer), \<^verbatim>\<open>get_label\<close>
  (raises, or returns a string, an integer or something else), and the bounding box with
  the confidence (\<open>None\<close> when \<^verbatim>\<open>get_bbox\<close>, \<^verbatim>\<open>get_confidence\<close> or a coordinate accessor
  raises).
\<close>

datatype class_id_attr = NoAttr | ClassIdRaises | ClassIdReturns "int option"

datatype label_value = LabelRaises | LabelStr string | LabelInt int | LabelOther

record bbox =
  xmin :: real
  ymin :: real
  xmax :: real
  ymax :: real

record detection =
  get_class_id :: class_id_attr
  get_label :: label_value
  get_bbox :: "bbox option"

definition LABEL_TO_CLASS :: "(string \<times> int) list" where
  "LABEL_TO_CLASS =
     [(''person'', 0), (''car'', 2), (''automobile'', 2), (''motorcycle'', 3),
      (''motorbike'', 3), (''bus'', 5), (''truck'', 7), (''lorry'', 7)]"

text \<open>\<^verbatim>\<open>str.lower\<close> on the ASCII letters; every other character is left as it is.\<close>

definition lower_char :: "char \<Rightarrow> char" where
  "lower_char c =
     (case map_of (zip ''ABCDEFGHIJKLMNOPQRSTUVWXYZ'' ''abcdefghijklmnopqrstuvwxyz'') c of
        Some l \<Rightarrow> l
      | None \<Rightarrow> c)"

definition lower :: "string \<Rightarrow> string" where
  "lower s = map lower_char s"

text \<open>Lines 284-300: the class id, from \<^verbatim>\<open>get_class_id\<close> first, from the label otherwise.\<close>

definition resolve_class_id :: "detection \<Rightarrow> int option" where
  "resolve_class_id d =
     (let class_id = (case get_class_id d of
                        NoAttr \<Rightarrow> None
                      | ClassIdRaises \<Rightarrow> None
                      | ClassIdReturns r \<Rightarrow> r)
      in case class_id of
           Some c \<Rightarrow> Some c
         | None \<Rightarrow>
             (case get_label d of
                LabelStr l \<Rightarrow> map_of LABEL_TO_CLASS (lower l)
              | LabelInt i \<Rightarrow> Some i
              | LabelRaises \<Rightarrow> None
              | LabelOther \<Rightarrow> None))"

record counts =
  persons :: int
  vehicles :: int
  total :: int

datatype scan_exception = ImportError | OtherException

text \<open>Lines 310-327: the normalised box is scaled to pixels and tested against the region.\<close>

definition bbox_in_roi :: "ROI \<Rightarrow> real \<Rightarrow> real \<Rightarrow> bbox \<Rightarrow> bool" where
  "bbox_in_roi roi frame_width frame_height b =
     (let bx1 = xmin b * frame_width;
          by1 = ymin b * frame_height;
          bx2 = xmax b * frame_width;
          by2 = ymax b * frame_height
      in contains_bbox roi bx1 by1 bx2 by2 frame_width frame_height)"

text \<open>
  The body of the loop of lines 282-336 on one detection: \<open>Inl\<close> when it raises (the
  counters are then as they were), \<open>Inr\<close> with the counters after the detection otherwise.
\<close>

definition process_detection ::
  "ROI \<Rightarrow> real \<Rightarrow> real \<Rightarrow> counts \<Rightarrow> detection \<Rightarrow> scan_exception + counts" where
  "process_detection roi frame_width frame_height cs d =
     (case resolve_class_id d of
        None \<Rightarrow> Inr cs
      | Some class_id \<Rightarrow>
          (case get_bbox d of
             None \<Rightarrow> Inl OtherException
           | Some b \<Rightarrow>
               if bbox_in_roi roi frame_width frame_height b
               then
                 (let cs1 = cs\<lparr>total := total cs + 1\<rparr>
                  in if class_id = COCO_PERSON
                     then Inr (cs1\<lparr>persons := persons cs1 + 1\<rparr>)
                     else if class_id \<in> set COCO_VEHICLES
                     then Inr (cs1\<lparr>vehicles := vehicles cs1 + 1\<rparr>)
                     else Inr cs1)
               else Inr cs))"

text \<open>
  The loop: it stops at the first detection that raises, and the counters keep what the
  detections before it added (they are local variables set before the \<^verbatim>\<open>try\<close>).
\<close>

fun process_detections ::
  "ROI \<Rightarrow> real \<Rightarrow> real \<Rightarrow> counts \<Rightarrow> detection list \<Rightarrow> counts \<times> scan_exception option" where
  "process_detections roi w h cs [] = (cs, None)"
| "process_detections roi w h cs (d # ds) =
     (case process_detection roi w h cs d of
        Inl e \<Rightarrow> (cs, Some e)
      | Inr cs' \<Rightarrow> process_detections roi w h cs' ds)"

text \<open>
  What lines 258-264 obtain for a frame: the import of \<^verbatim>\<open>hailo\<close> fails, reading the
  detections from the buffer raises, or there is a list of detections.
\<close>

datatype hailo_result = ImportFails | GetDetectionsRaises | Detections "detection list"

text \<open>
  Lines 252-346: the counters after the \<^verbatim>\<open>try\<close> statement, and the exception its
  handlers caught, if any. Both handlers only log.
\<close>

definition scan_frame ::
  "ROI \<Rightarrow> real \<Rightarrow> real \<Rightarrow> hailo_result \<Rightarrow> counts \<times> scan_exception option" where
  "scan_frame roi w h r =
     (let cs0 = \<lparr>persons = 0, vehicles = 0, total = 0\<rparr>
      in case r of
           ImportFails \<Rightarrow> (cs0, Some ImportError)
         | GetDetectionsRaises \<Rightarrow> (cs0, Some OtherException)
         | Detections ds \<Rightarrow> process_detections roi w h cs0 ds)"

subsection \<open>The buffer probe (lines 227-376)\<close>

record counter =
  roi :: ROI
  perf_monitor :: PerformanceMonitor
  frame_count :: nat
  last_frame_time :: "real option"
  frame_width :: real
  frame_height :: real

text \<open>
  Lines 154-164 of \<^verbatim>\<open>__init__\<close>, with the region and the configured frame size
  (\<^verbatim>\<open>video_width\<close> and \<^verbatim>\<open>video_height\<close>, 640 when absent).
\<close>

definition RTSPROICounter_init :: "ROI \<Rightarrow> real option \<Rightarrow> real option \<Rightarrow> counter" where
  "RTSPROICounter_init r video_width video_height =
     \<lparr>roi = r,
      perf_monitor = PerformanceMonitor_init 100,
      frame_count = 0,
      last_frame_time = None,
      frame_width = (case video_width of None \<Rightarrow> 640 | Some w \<Rightarrow> w),
      frame_height = (case video_height of None \<Rightarrow> 640 | Some h \<Rightarrow> h)\<rparr>"

text \<open>
  One call of the probe: the wall-clock time read at line 229, whether the probe info
  holds a buffer, the width and height in the pad's caps (if it has them), and what the
  Hailo binding returns.
\<close>

record frame =
  now :: real
  has_buffer :: bool
  caps_size :: "(real \<times> real) option"
  hailo :: hailo_result

text \<open>Lines 232-235: the interval to the previous call, 0 when there was none.\<close>

definition frame_interval :: "real option \<Rightarrow> real \<Rightarrow> real" where
  "frame_interval last_time current_time =
     (case last_time of
        Some t \<Rightarrow> (current_time - t) * 1000
      | None \<Rightarrow> 0)"

text \<open>Lines 243-250: on the first frame the size is read from the caps, when present.\<close>

definition read_caps :: "counter \<Rightarrow> (real \<times> real) option \<Rightarrow> counter" where
  "read_caps self caps =
     (if frame_count self = 0
      then (case caps of
              Some (w, h) \<Rightarrow> self\<lparr>frame_width := w, frame_height := h\<rparr>
            | None \<Rightarrow> self)
      else self)"

text \<open>Lines 350-357: the sample of a frame.\<close>

definition frame_stats :: "counter \<Rightarrow> real \<Rightarrow> real \<Rightarrow> counts \<Rightarrow> DetectionStats" where
  "frame_stats self current_time frame_interval_ms cs =
     \<lparr>timestamp = current_time,
      person_count = persons cs,
      vehicle_count = vehicles cs,
      total_detections = total cs,
      processing_time_ms = frame_interval_ms,
      roi_name = name (roi self)\<rparr>"

text \<open>Lines 349-360: the sample enters the monitor when the interval is positive.\<close>

definition update_statistics :: "counter \<Rightarrow> real \<Rightarrow> real \<Rightarrow> counts \<Rightarrow> counter" where
  "update_statistics self current_time frame_interval_ms cs =
     (if frame_interval_ms > 0
      then
        (let stats = frame_stats self current_time frame_interval_ms cs
         in self\<lparr>perf_monitor :=
                   add_detection (add_frame_time (perf_monitor self) frame_interval_ms) stats\<rparr>)
      else self)"

text \<open>
  The probe always returns \<^verbatim>\<open>Gst.PadProbeReturn.OK\<close>; the model returns the counter
  after the call. The periodic summary of lines 364-374 only reads the monitor, writes
  a log line and notes when it did; it is left out, with \<^verbatim>\<open>last_log_time\<close>.
\<close>

definition on_buffer_probe :: "counter \<Rightarrow> frame \<Rightarrow> counter" where
  "on_buffer_probe self fr =
     (let current_time = now fr;
          frame_interval_ms = frame_interval (last_frame_time self) current_time;
          s1 = self\<lparr>last_frame_time := Some current_time\<rparr>
      in if \<not> has_buffer fr then s1
         else
           let s2 = read_caps s1 (caps_size fr);
               cs = fst (scan_frame (roi s2) (frame_width s2) (frame_height s2) (hailo fr));
               s3 = update_statistics s2 current_time frame_interval_ms cs
           in s3\<lparr>frame_count := frame_count s3 + 1\<rparr>)"

subsection \<open>Bus messages and the run of the pipeline (lines 378-398, 467-535, 572-576)\<close>

datatype gst_message = EOS | ERROR | WARNING | STATE_CHANGED bool | OTHER_MESSAGE

text \<open>
  The lines that \<^verbatim>\<open>run\<close> and \<^verbatim>\<open>on_message\<close> write to the log, by level and fixed text;
  the final statistics carry the dictionary that is printed.
\<close>

datatype log_entry =
    LogInfo string
  | LogError string
  | LogWarning string
  | LogDebug string
  | LogFinalStatistics "stats_dict option"

text \<open>
  \<^verbatim>\<open>on_message\<close>: what it logs and whether it calls \<^verbatim>\<open>self.loop.quit()\<close>. The flag of
  \<open>STATE_CHANGED\<close> says whether the message comes from the pipeline itself.
\<close>

fun on_message :: "gst_message \<Rightarrow> log_entry list \<times> bool" where
  "on_message EOS = ([LogInfo ''End of stream''], True)"
| "on_message ERROR = ([LogError ''Pipeline error'', LogDebug ''Debug info''], True)"
| "on_message WARNING = ([LogWarning ''Pipeline warning''], False)"
| "on_message (STATE_CHANGED from_pipeline) =
     ((if from_pipeline then [LogDebug ''State changed''] else []), False)"
| "on_message OTHER_MESSAGE = ([], False)"

text \<open>
  What happens while \<^verbatim>\<open>self.loop.run()\<close> is running: a message arrives on the bus, a
  buffer reaches the probe, or the operator interrupts.
\<close>

datatype loop_event = BusMessage gst_message | Buffer frame | KeyboardInterrupt

text \<open>
  \<^verbatim>\<open>self.loop.run()\<close> over the events in their order: it returns when a handler has
  called \<^verbatim>\<open>quit\<close> or when \<^verbatim>\<open>KeyboardInterrupt\<close> is raised, with the counter, the lines
  logged and whether it was interrupted. \<open>None\<close>: the events end and the loop is still
  running.
\<close>

fun main_loop ::
  "counter \<Rightarrow> bool \<Rightarrow> loop_event list \<Rightarrow> (counter \<times> log_entry list \<times> bool) option" where
  "main_loop self probe [] = None"
| "main_loop self probe (KeyboardInterrupt # es) = Some (self, [], True)"
| "main_loop self probe (Buffer fr # es) =
     main_loop (if probe then on_buffer_probe self fr else self) probe es"
| "main_loop self probe (BusMessage m # es) =
     (case on_message m of
        (l, quit) \<Rightarrow>
          if quit then Some (self, l, False)
          else (case main_loop self probe es of
                  None \<Rightarrow> None
                | Some (self', l', interrupted) \<Rightarrow> Some (self', l @ l', interrupted)))"

datatype state_change_return = FAILURE | SUCCESS | ASYNC | NO_PREROLL

datatype hailo_filter_lookup = NoElement | NoSrcPad | SrcPad "(real \<times> real) option"

text \<open>
  What \<^verbatim>\<open>run\<close> meets: whether \<^verbatim>\<open>find_postprocess_lib\<close> finds the library (it raises
  \<^verbatim>\<open>FileNotFoundError\<close> otherwise), whether \<^verbatim>\<open>Gst.parse_launch\<close> builds the pipeline (it
  raises \<^verbatim>\<open>GLib.Error\<close> otherwise), the element \<^verbatim>\<open>hailo_filter\<close> with the caps of its
  source pad, the answer to \<^verbatim>\<open>set_state(PLAYING)\<close>, and the events of the main loop.
\<close>

record run_env =
  postprocess_lib_found :: bool
  parse_launch_ok :: bool
  hailo_filter :: hailo_filter_lookup
  set_state_playing :: state_change_return
  events :: "loop_event list"

record run_result =
  returned :: "error + int"
  run_log :: "log_entry list"
  pipeline_set_to_null :: bool
  final_counter :: counter

definition run_start_log :: "log_entry list" where
  "run_start_log =
     [LogInfo ''Starting RTSP ROI Counter'', LogInfo ''RTSP URL'', LogInfo ''ROI'',
      LogInfo ''Target'']"

text \<open>\<^verbatim>\<open>run\<close>; \<open>None\<close> when the main loop never returns.\<close>

definition run :: "counter \<Rightarrow> run_env \<Rightarrow> run_result option" where
  "run self env =
     (if \<not> postprocess_lib_found env
      then Some \<lparr>returned = Inl FileNotFoundError, run_log = run_start_log,
                 pipeline_set_to_null = False, final_counter = self\<rparr>
      else if \<not> parse_launch_ok env
      then Some \<lparr>returned = Inr 1,
                 run_log = run_start_log @ [LogError ''Failed to create pipeline''],
                 pipeline_set_to_null = False, final_counter = self\<rparr>
      else
        let (self1, probe, l1) =
              (case hailo_filter env of
                 NoElement \<Rightarrow> (self, False, [LogWarning ''Could not find hailo_filter element''])
               | NoSrcPad \<Rightarrow>
                   (self, False, [LogWarning ''Could not get src pad from hailo_filter''])
               | SrcPad None \<Rightarrow>
                   (self, True, [LogInfo ''Added buffer probe to hailofilter output''])
               | SrcPad (Some (w, h)) \<Rightarrow>
                   (self\<lparr>frame_width := w, frame_height := h\<rparr>, True,
                    [LogInfo ''Added buffer probe to hailofilter output'',
                     LogInfo ''Frame dimensions from caps'']))
        in if set_state_playing env = FAILURE
           then Some \<lparr>returned = Inr 1,
                      run_log = run_start_log @ l1 @
                        [LogError ''Unable to set pipeline to PLAYING state''],
                      pipeline_set_to_null = False, final_counter = self1\<rparr>
           else
             (case main_loop self1 probe (events env) of
                None \<Rightarrow> None
              | Some (self2, l2, interrupted) \<Rightarrow>
                  Some \<lparr>returned = Inr 0,
                        run_log = run_start_log @ l1 @
                          [LogInfo ''Pipeline started, processing RTSP stream...''] @ l2 @
                          (if interrupted then [LogInfo ''Interrupted by user''] else []) @
                          [LogInfo ''Pipeline stopped'',
                           LogFinalStatistics (get_stats (perf_monitor self2))],
                        pipeline_set_to_null = True, final_counter = self2\<rparr>))"

text \<open>
  The status the process exits with, from \<^verbatim>\<open>sys.exit(main())\<close> where \<^verbatim>\<open>main\<close> returns
  what \<^verbatim>\<open>run\<close> returns: the returned integer, or 1 when an exception leaves \<^verbatim>\<open>run\<close>
  uncaught.
\<close>

definition exit_code :: "error + int \<Rightarrow> int" where
  "exit_code r = (case r of Inl e \<Rightarrow> 1 | Inr n \<Rightarrow> n)"

section \<open>Properties\<close>

subsection \<open>The overlap test\<close>

lemma contains_bbox_eq:
  "contains_bbox r bx1 by1 bx2 by2 w h =
     (x1 r * w \<le> bx2 \<and> bx1 \<le> x2 r * w \<and> y1 r * h \<le> by2 \<and> by1 \<le> y2 r * h)"
  by (auto simp: contains_bbox_def Let_def)

text \<open>
  Claim C1. With the region scaled to pixels by the frame width and height,
  \<^const>\<open>contains_bbox\<close> is false exactly when the box lies strictly to the left of, to the
  right of, above or below the region, and true otherwise; a box whose right edge is on
  the region's left edge (\<open>bx2 = x1 r * w\<close>) and that is not separated from the region in
  another way overlaps.
\<close>

theorem contains_bbox_iff_not_disjoint:
  "contains_bbox r bx1 by1 bx2 by2 w h =
     (\<not> (bx2 < x1 r * w \<or> bx1 > x2 r * w \<or> by2 < y1 r * h \<or> by1 > y2 r * h))
   \<and> (bx2 = x1 r * w \<and> \<not> (bx1 > x2 r * w \<or> by2 < y1 r * h \<or> by1 > y2 r * h)
        \<longrightarrow> contains_bbox r bx1 by1 bx2 by2 w h)"
  by (auto simp: contains_bbox_eq)

text \<open>
  The region from a quarter to three quarters of a 640 by 640 frame spans 160 to 480: a
  box ending at x = 160 touches it and overlaps, a box ending at x = 159 does not.
\<close>

theorem contains_bbox_iff_not_disjoint_witness:
  "(160 :: real) = x1 \<lparr>x1 = 1/4, y1 = 1/4, x2 = 3/4, y2 = 3/4, name = ''entrance''\<rparr> * 640
   \<and> contains_bbox \<lparr>x1 = 1/4, y1 = 1/4, x2 = 3/4, y2 = 3/4, name = ''entrance''\<rparr>
         64 200 160 300 640 640
   \<and> \<not> contains_bbox \<lparr>x1 = 1/4, y1 = 1/4, x2 = 3/4, y2 = 3/4, name = ''entrance''\<rparr>
         64 200 159 300 640 640"
  using contains_bbox_iff_not_disjoint
    [of "\<lparr>x1 = 1/4, y1 = 1/4, x2 = 3/4, y2 = 3/4, name = ''entrance''\<rparr>" 64 200 160 300 640 640]
    contains_bbox_iff_not_disjoint
    [of "\<lparr>x1 = 1/4, y1 = 1/4, x2 = 3/4, y2 = 3/4, name = ''entrance''\<rparr>" 64 200 159 300 640 640]
  by simp

text \<open>
  Claim C7 says the test returns false whenever the frame width or height is not
  positive. The source has no such guard: with a frame of width and height 0 the region
  collapses to the origin, and a box at the origin overlaps it.
\<close>

theorem contains_bbox_zero_frame_counterexample:
  "contains_bbox \<lparr>x1 = 1/4, y1 = 1/4, x2 = 3/4, y2 = 3/4, name = ''entrance''\<rparr> 0 0 0 0 0 0"
  by (simp add: contains_bbox_def)

text \<open>
  Claim C7, amended. The test has no guard on the frame size and never raises: for a
  width or height that is zero or negative it still returns the outcome of the four
  comparisons against the scaled region, so it is true exactly when the box is not
  strictly apart from that region.
\<close>

theorem contains_bbox_no_dimension_guard:
  "w \<le> 0 \<or> h \<le> 0 \<Longrightarrow>
   contains_bbox r bx1 by1 bx2 by2 w h =
     (x1 r * w \<le> bx2 \<and> bx1 \<le> x2 r * w \<and> y1 r * h \<le> by2 \<and> by1 \<le> y2 r * h)"
  by (rule contains_bbox_eq)

text \<open>A frame of width \<open>-640\<close>: the scaled region runs from \<open>-160\<close> down to \<open>-480\<close>.\<close>

theorem contains_bbox_no_dimension_guard_witness:
  "((-640 :: real) \<le> 0 \<or> (640 :: real) \<le> 0)
   \<and> \<not> contains_bbox \<lparr>x1 = 1/4, y1 = 1/4, x2 = 3/4, y2 = 3/4, name = ''entrance''\<rparr>
         (-320) 200 (-200) 300 (-640) 640
   \<and> contains_bbox \<lparr>x1 = 1/4, y1 = 1/4, x2 = 3/4, y2 = 3/4, name = ''entrance''\<rparr>
         (-500) 200 (-100) 300 (-640) 640"
  using contains_bbox_no_dimension_guard
    [of "-640" 640 "\<lparr>x1 = 1/4, y1 = 1/4, x2 = 3/4, y2 = 3/4, name = ''entrance''\<rparr>"
        "-320" 200 "-200" 300]
    contains_bbox_no_dimension_guard
    [of "-640" 640 "\<lparr>x1 = 1/4, y1 = 1/4, x2 = 3/4, y2 = 3/4, name = ''entrance''\<rparr>"
        "-500" 200 "-100" 300]
  by simp

subsection \<open>Constructing a region\<close>

text \<open>
  Claim C6 says a region with \<open>x1 \<ge> x2\<close> or \<open>y1 \<ge> y2\<close> is rejected when it is
  constructed. The constructor checks nothing: an inverted region is built.
\<close>

theorem ROI_init_inverted_counterexample:
  "ROI_init (Some (3/4)) (Some (1/4)) (Some (1/4)) (Some (3/4)) None
     = Inr \<lparr>x1 = 3/4, y1 = 1/4, x2 = 1/4, y2 = 3/4, name = ''default''\<rparr>
   \<and> \<not> x1 \<lparr>x1 = 3/4, y1 = 1/4, x2 = 1/4, y2 = 3/4, name = ''default''\<rparr>
         < x2 \<lparr>x1 = 3/4, y1 = 1/4, x2 = 1/4, y2 = 3/4, name = ''default''\<rparr>"
  by (simp add: ROI_init_def)

text \<open>
  Claim C6, amended. Constructing a region validates no geometry: whenever the four
  coordinates are given, whatever their order, construction succeeds and the region
  holds them unchanged (with the name \<^verbatim>\<open>"default"\<close> when none is given).
\<close>

theorem ROI_init_accepts_any_coordinates:
  "ROI_init (Some a) (Some b) (Some c) (Some d) n
     = Inr \<lparr>x1 = a, y1 = b, x2 = c, y2 = d,
            name = (case n of None \<Rightarrow> ''default'' | Some s \<Rightarrow> s)\<rparr>"
  by (simp add: ROI_init_def)

subsection \<open>The rolling window\<close>

lemma deque_append_last_n:
  "length xs \<le> n \<Longrightarrow> deque_append n xs x = last_n n (xs @ [x])"
  by (cases xs) (auto simp: deque_append_def last_n_def Let_def drop_Suc Suc_diff_le)

lemma length_last_n: "length (last_n n xs) = min n (length xs)"
  by (simp add: last_n_def)

lemma last_n_snoc: "last_n n (last_n n zs @ [y]) = last_n n (zs @ [y])"
proof -
  have "Suc (length zs) - (length zs - n + n) + (length zs - n) = Suc (length zs) - n"
    by arith
  then show ?thesis by (simp add: last_n_def)
qed

lemma foldl_deque_append:
  "foldl (deque_append n) (last_n n zs) ys = last_n n (zs @ ys)"
proof (induction ys arbitrary: zs)
  case Nil
  then show ?case by simp
next
  case (Cons y ys)
  have "deque_append n (last_n n zs) y = last_n n (zs @ [y])"
    by (simp add: deque_append_last_n length_last_n last_n_snoc)
  then show ?case using Cons.IH [of "zs @ [y]"] by simp
qed

lemma record_sample_fields:
  "window_size (record_sample pm s) = window_size pm"
  "frame_times (record_sample pm s)
     = deque_append (window_size pm) (frame_times pm) (processing_time_ms s)"
  "detection_stats (record_sample pm s) = deque_append (window_size pm) (detection_stats pm) s"
  by (simp_all add: record_sample_def add_detection_def add_frame_time_def)

lemma foldl_record_sample:
  "window_size (foldl record_sample pm xs) = window_size pm \<and>
   frame_times (foldl record_sample pm xs) =
     foldl (deque_append (window_size pm)) (frame_times pm) (map processing_time_ms xs) \<and>
   detection_stats (foldl record_sample pm xs) =
     foldl (deque_append (window_size pm)) (detection_stats pm) xs"
  by (induction xs arbitrary: pm) (simp_all add: record_sample_fields)

lemma window_after_recording:
  "frame_times (foldl record_sample (PerformanceMonitor_init n) xs) =
     last_n n (map processing_time_ms xs) \<and>
   detection_stats (foldl record_sample (PerformanceMonitor_init n) xs) = last_n n xs"
  using foldl_deque_append [of n "[]" "map processing_time_ms xs"]
        foldl_deque_append [of n "[]" xs]
  by (simp add: foldl_record_sample PerformanceMonitor_init_def last_n_def)

text \<open>
  Claim C4 says that after \<open>N + 5\<close> samples a window of capacity \<open>N\<close> holds the last \<open>N\<close>
  and the snapshot's frame total is \<open>N\<close>. A window of capacity 0 stays empty, and for an
  empty window \<^const>\<open>get_stats\<close> returns the empty dictionary, which has no frame total.
\<close>

theorem window_capacity_zero_counterexample:
  "map_option total_frames
     (get_stats (foldl record_sample (PerformanceMonitor_init 0)
        [\<lparr>timestamp = 1, person_count = 0, vehicle_count = 0, total_detections = 0,
           processing_time_ms = 40, roi_name = ''entrance''\<rparr>,
         \<lparr>timestamp = 2, person_count = 0, vehicle_count = 0, total_detections = 0,
           processing_time_ms = 40, roi_name = ''entrance''\<rparr>,
         \<lparr>timestamp = 3, person_count = 0, vehicle_count = 0, total_detections = 0,
           processing_time_ms = 40, roi_name = ''entrance''\<rparr>,
         \<lparr>timestamp = 4, person_count = 0, vehicle_count = 0, total_detections = 0,
           processing_time_ms = 40, roi_name = ''entrance''\<rparr>,
         \<lparr>timestamp = 5, person_count = 0, vehicle_count = 0, total_detections = 0,
           processing_time_ms = 40, roi_name = ''entrance''\<rparr>]))
   \<noteq> Some 0"
  by (simp add: get_stats_def record_sample_def add_detection_def add_frame_time_def
        PerformanceMonitor_init_def deque_append_def)

text \<open>
  Claim C4, amended. After any earlier samples, recording \<open>N + 5\<close> samples into a monitor
  of capacity \<open>N\<close> leaves exactly the last \<open>N\<close> of them, in order, in both deques; nothing
  is raised on the way. For \<open>N \<ge> 1\<close> the snapshot's \<^verbatim>\<open>total_frames\<close> is \<open>N\<close>; for \<open>N = 0\<close>
  the window is empty and the snapshot is the empty dictionary.
\<close>

theorem window_keeps_most_recent:
  assumes "length xs = n + 5"
  shows "detection_stats (foldl record_sample (PerformanceMonitor_init n) (pre @ xs)) = drop 5 xs
       \<and> frame_times (foldl record_sample (PerformanceMonitor_init n) (pre @ xs))
           = map processing_time_ms (drop 5 xs)
       \<and> (0 < n \<longrightarrow>
            map_option total_frames
              (get_stats (foldl record_sample (PerformanceMonitor_init n) (pre @ xs))) = Some n)
       \<and> (n = 0 \<longrightarrow>
            get_stats (foldl record_sample (PerformanceMonitor_init n) (pre @ xs)) = None)"
proof -
  let ?pm = "foldl record_sample (PerformanceMonitor_init n) (pre @ xs)"
  have w: "frame_times ?pm = last_n n (map processing_time_ms (pre @ xs))"
         "detection_stats ?pm = last_n n (pre @ xs)"
    using window_after_recording [of n "pre @ xs"] by blast+
  have d: "detection_stats ?pm = drop 5 xs"
    using assms unfolding w by (simp add: last_n_def)
  have f: "frame_times ?pm = map processing_time_ms (drop 5 xs)"
    using assms unfolding w by (simp add: last_n_def drop_map)
  have len: "length (frame_times ?pm) = n"
    using assms unfolding f by simp
  have pos: "0 < n \<longrightarrow> map_option total_frames (get_stats ?pm) = Some n"
    using len by (auto simp: get_stats_def Let_def)
  have zero: "n = 0 \<longrightarrow> get_stats ?pm = None"
    using len by (auto simp: get_stats_def)
  show ?thesis using d f pos zero by blast
qed

text \<open>Capacity 1 and six samples after an earlier one: the sixth alone is left.\<close>

theorem window_keeps_most_recent_witness:
  "length
     [\<lparr>timestamp = 1, person_count = 1, vehicle_count = 0, total_detections = 1,
        processing_time_ms = 41, roi_name = ''entrance''\<rparr>,
      \<lparr>timestamp = 2, person_count = 2, vehicle_count = 0, total_detections = 2,
        processing_time_ms = 42, roi_name = ''entrance''\<rparr>,
      \<lparr>timestamp = 3, person_count = 3, vehicle_count = 0, total_detections = 3,
        processing_time_ms = 43, roi_name = ''entrance''\<rparr>,
      \<lparr>timestamp = 4, person_count = 4, vehicle_count = 0, total_detections = 4,
        processing_time_ms = 44, roi_name = ''entrance''\<rparr>,
      \<lparr>timestamp = 5, person_count = 5, vehicle_count = 0, total_detections = 5,
        processing_time_ms = 45, roi_name = ''entrance''\<rparr>,
      \<lparr>timestamp = 6, person_count = 6, vehicle_count = 0, total_detections = 6,
        processing_time_ms = 46, roi_name = ''entrance''\<rparr>] = 1 + 5
   \<and> detection_stats (foldl record_sample (PerformanceMonitor_init 1)
       ([\<lparr>timestamp = 0, person_count = 0, vehicle_count = 0, total_detections = 0,
          processing_time_ms = 40, roi_name = ''entrance''\<rparr>] @
        [\<lparr>timestamp = 1, person_count = 1, vehicle_count = 0, total_detections = 1,
           processing_time_ms = 41, roi_name = ''entrance''\<rparr>,
         \<lparr>timestamp = 2, person_count = 2, vehicle_count = 0, total_detections = 2,
           processing_time_ms = 42, roi_name = ''entrance''\<rparr>,
         \<lparr>timestamp = 3, person_count = 3, vehicle_count = 0, total_detections = 3,
           processing_time_ms = 43, roi_name = ''entrance''\<rparr>,
         \<lparr>timestamp = 4, person_count = 4, vehicle_count = 0, total_detections = 4,
           processing_time_ms = 44, roi_name = ''entrance''\<rparr>,
         \<lparr>timestamp = 5, person_count = 5, vehicle_count = 0, total_detections = 5,
           processing_time_ms = 45, roi_name = ''entrance''\<rparr>,
         \<lparr>timestamp = 6, person_count = 6, vehicle_count = 0, total_detections = 6,
           processing_time_ms = 46, roi_name = ''entrance''\<rparr>]))
     = [\<lparr>timestamp = 6, person_count = 6, vehicle_count = 0, total_detections = 6,
          processing_time_ms = 46, roi_name = ''entrance''\<rparr>]
   \<and> map_option total_frames
       (get_stats (foldl record_sample (PerformanceMonitor_init 1)
       ([\<lparr>timestamp = 0, person_count = 0, vehicle_count = 0, total_detections = 0,
          processing_time_ms = 40, roi_name = ''entrance''\<rparr>] @
        [\<lparr>timestamp = 1, person_count = 1, vehicle_count = 0, total_detections = 1,
           processing_time_ms = 41, roi_name = ''entrance''\<rparr>,
         \<lparr>timestamp = 2, person_count = 2, vehicle_count = 0, total_detections = 2,
           processing_time_ms = 42, roi_name = ''entrance''\<rparr>,
         \<lparr>timestamp = 3, person_count = 3, vehicle_count = 0, total_detections = 3,
           processing_time_ms = 43, roi_name = ''entrance''\<rparr>,
         \<lparr>timestamp = 4, person_count = 4, vehicle_count = 0, total_detections = 4,
           processing_time_ms = 44, roi_name = ''entrance''\<rparr>,
         \<lparr>timestamp = 5, person_count = 5, vehicle_count = 0, total_detections = 5,
           processing_time_ms = 45, roi_name = ''entrance''\<rparr>,
         \<lparr>timestamp = 6, person_count = 6, vehicle_count = 0, total_detections = 6,
           processing_time_ms = 46, roi_name = ''entrance''\<rparr>]))) = Some 1"
  using window_keeps_most_recent
    [of "[\<lparr>timestamp = 1, person_count = 1, vehicle_count = 0, total_detections = 1,
           processing_time_ms = 41, roi_name = ''entrance''\<rparr>,
         \<lparr>timestamp = 2, person_count = 2, vehicle_count = 0, total_detections = 2,
           processing_time_ms = 42, roi_name = ''entrance''\<rparr>,
         \<lparr>timestamp = 3, person_count = 3, vehicle_count = 0, total_detections = 3,
           processing_time_ms = 43, roi_name = ''entrance''\<rparr>,
         \<lparr>timestamp = 4, person_count = 4, vehicle_count = 0, total_detections = 4,
           processing_time_ms = 44, roi_name = ''entrance''\<rparr>,
         \<lparr>timestamp = 5, person_count = 5, vehicle_count = 0, total_detections = 5,
           processing_time_ms = 45, roi_name = ''entrance''\<rparr>,
         \<lparr>timestamp = 6, person_count = 6, vehicle_count = 0, total_detections = 6,
           processing_time_ms = 46, roi_name = ''entrance''\<rparr>]" 1
        "[\<lparr>timestamp = 0, person_count = 0, vehicle_count = 0, total_detections = 0,
           processing_time_ms = 40, roi_name = ''entrance''\<rparr>]"]
  by simp

subsection \<open>The snapshot\<close>

lemma round_half_even_error: "\<bar>of_int (round_half_even y) - y\<bar> \<le> 1 / 2"
proof -
  have "of_int \<lfloor>y\<rfloor> \<le> y" "y < of_int \<lfloor>y\<rfloor> + 1" by linarith+
  then show ?thesis
    by (auto simp: round_half_even_def Let_def abs_le_iff)
qed

lemma py_round_2_error: "\<bar>py_round x 2 - x\<bar> \<le> 1 / 200"
proof -
  have "\<bar>of_int (round_half_even (x * 100)) - x * 100\<bar> \<le> 1 / 2"
    by (rule round_half_even_error)
  then show ?thesis
    by (simp add: py_round_def abs_le_iff field_simps)
qed

text \<open>
  Claim C5 says the snapshot's \<^verbatim>\<open>fps\<close> is 1000 divided by its average frame interval.
  Both entries are rounded to two decimals, each from the unrounded mean: one interval of
  3 ms gives the average 3 and \<^verbatim>\<open>fps\<close> 333.33, which is not \<open>1000 / 3\<close>.
\<close>

theorem get_stats_fps_counterexample:
  "get_stats \<lparr>window_size = 100, frame_times = [3],
     detection_stats = [\<lparr>timestamp = 1, person_count = 1, vehicle_count = 0,
        total_detections = 1, processing_time_ms = 3, roi_name = ''entrance''\<rparr>]\<rparr>
   = Some \<lparr>avg_processing_time_ms = 3, fps = 33333 / 100, total_frames = 1,
           recent_person_count = 1, recent_vehicle_count = 0\<rparr>
   \<and> (33333 / 100 :: real) \<noteq> 1000 / 3"
  by (simp add: get_stats_def py_round_def round_half_even_def Let_def last_n_def)

text \<open>
  Claim C5, amended. For every non-empty window \<^const>\<open>get_stats\<close> returns a snapshot in
  which the average frame interval is the mean of the recorded intervals rounded to two
  decimals (so within 0.005 of the mean); \<^verbatim>\<open>fps\<close> is 1000 divided by the unrounded mean,
  rounded to two decimals, when the mean is positive and 0 otherwise; the recent person
  and vehicle averages are the unrounded means over the last 10 samples, over all of
  them when there are fewer than 10, and 0 when there is none. The snapshot is a function
  of the two deques as they are at the call: monitors with the same contents give the
  same snapshot.
\<close>

theorem get_stats_rounded:
  assumes "frame_times pm \<noteq> []"
  shows "\<exists>s. get_stats pm = Some s
    \<and> avg_processing_time_ms s
        = py_round (sum_list (frame_times pm) / real (length (frame_times pm))) 2
    \<and> \<bar>avg_processing_time_ms s - sum_list (frame_times pm) / real (length (frame_times pm))\<bar>
        \<le> 1 / 200
    \<and> (0 < sum_list (frame_times pm) \<longrightarrow>
         fps s = py_round (1000 / (sum_list (frame_times pm) / real (length (frame_times pm)))) 2
         \<and> \<bar>fps s - 1000 / (sum_list (frame_times pm) / real (length (frame_times pm)))\<bar>
             \<le> 1 / 200)
    \<and> (sum_list (frame_times pm) \<le> 0 \<longrightarrow> fps s = 0)
    \<and> (detection_stats pm \<noteq> [] \<longrightarrow>
         recent_person_count s
           = real_of_int (sum_list (map person_count (last_n 10 (detection_stats pm))))
               / real (min 10 (length (detection_stats pm)))
         \<and> recent_vehicle_count s
           = real_of_int (sum_list (map vehicle_count (last_n 10 (detection_stats pm))))
               / real (min 10 (length (detection_stats pm))))
    \<and> (detection_stats pm = [] \<longrightarrow> recent_person_count s = 0 \<and> recent_vehicle_count s = 0)
    \<and> (length (detection_stats pm) \<le> 10 \<longrightarrow> last_n 10 (detection_stats pm) = detection_stats pm)
    \<and> (10 \<le> length (detection_stats pm) \<longrightarrow>
         last_n 10 (detection_stats pm)
           = drop (length (detection_stats pm) - 10) (detection_stats pm))
    \<and> (\<forall>pm'. frame_times pm' = frame_times pm \<and> detection_stats pm' = detection_stats pm
          \<longrightarrow> get_stats pm' = Some s)"
proof -
  let ?ft = "frame_times pm"
  let ?mean = "sum_list ?ft / real (length ?ft)"
  have len: "0 < real (length ?ft)" using assms by simp
  have pos: "0 < ?mean \<longleftrightarrow> 0 < sum_list ?ft"
    using len by (simp add: zero_less_divide_iff)
  have r0: "py_round 0 2 = 0"
    by (simp add: py_round_def round_half_even_def)
  have nonempty: "last_n 10 (detection_stats pm) = [] \<longleftrightarrow> detection_stats pm = []"
    by (cases "detection_stats pm") (auto simp: last_n_def)
  show ?thesis
    using assms pos r0 nonempty py_round_2_error [of ?mean] py_round_2_error [of "1000 / ?mean"]
    by (auto simp: get_stats_def Let_def last_n_def)
qed

text \<open>
  Intervals of 3 ms and 4 ms with twelve samples: the mean is 3.5, \<^verbatim>\<open>fps\<close> is
  \<open>1000 / 3.5 = 285.714...\<close> rounded to 285.71, and the recent averages leave out the
  two oldest samples (2 persons and 1 vehicle each), so they are 1 and 0.
\<close>

theorem get_stats_rounded_witness:
  "frame_times \<lparr>window_size = 100, frame_times = [3, 4],
      detection_stats =
        replicate 2 \<lparr>timestamp = 1, person_count = 2, vehicle_count = 1,
          total_detections = 3, processing_time_ms = 3, roi_name = ''entrance''\<rparr> @
        replicate 10 \<lparr>timestamp = 2, person_count = 1, vehicle_count = 0,
          total_detections = 1, processing_time_ms = 4, roi_name = ''entrance''\<rparr>\<rparr> \<noteq> []
   \<and> get_stats \<lparr>window_size = 100, frame_times = [3, 4],
      detection_stats =
        replicate 2 \<lparr>timestamp = 1, person_count = 2, vehicle_count = 1,
          total_detections = 3, processing_time_ms = 3, roi_name = ''entrance''\<rparr> @
        replicate 10 \<lparr>timestamp = 2, person_count = 1, vehicle_count = 0,
          total_detections = 1, processing_time_ms = 4, roi_name = ''entrance''\<rparr>\<rparr>
     = Some \<lparr>avg_processing_time_ms = 7 / 2, fps = 28571 / 100, total_frames = 2,
             recent_person_count = 1, recent_vehicle_count = 0\<rparr>"
proof -
  let ?pm = "\<lparr>window_size = 100, frame_times = [3, 4],
      detection_stats =
        replicate 2 \<lparr>timestamp = 1, person_count = 2, vehicle_count = 1,
          total_detections = 3, processing_time_ms = 3, roi_name = ''entrance''\<rparr> @
        replicate 10 \<lparr>timestamp = 2, person_count = 1, vehicle_count = 0,
          total_detections = 1, processing_time_ms = 4, roi_name = ''entrance''\<rparr>\<rparr>"
  have ne: "frame_times ?pm \<noteq> []" by simp
  from get_stats_rounded [OF ne] obtain s where
    s: "get_stats ?pm = Some s"
       "avg_processing_time_ms s
          = py_round (sum_list (frame_times ?pm) / real (length (frame_times ?pm))) 2"
    by blast
  have "get_stats ?pm = Some \<lparr>avg_processing_time_ms = 7 / 2, fps = 28571 / 100,
      total_frames = 2, recent_person_count = 1, recent_vehicle_count = 0\<rparr>"
    using s(1)
    by (auto simp: get_stats_def py_round_def round_half_even_def Let_def last_n_def
          sum_list_replicate)
  with ne show ?thesis by blast
qed

subsection \<open>Classifying and counting one detection\<close>

lemma resolve_numeric:
  "get_class_id d = ClassIdReturns (Some c) \<Longrightarrow> resolve_class_id d = Some c"
  by (simp add: resolve_class_id_def)

lemma resolve_label:
  "\<forall>c. get_class_id d \<noteq> ClassIdReturns (Some c) \<Longrightarrow> get_label d = LabelStr l \<Longrightarrow>
   resolve_class_id d = map_of LABEL_TO_CLASS (lower l)"
  by (cases "get_class_id d") (auto simp: resolve_class_id_def split: option.splits)

lemma resolve_no_label:
  "\<forall>c. get_class_id d \<noteq> ClassIdReturns (Some c) \<Longrightarrow>
   get_label d = LabelRaises \<or> get_label d = LabelOther \<Longrightarrow>
   resolve_class_id d = None"
  by (cases "get_class_id d") (auto simp: resolve_class_id_def split: option.splits)

lemma resolve_int_label:
  "\<forall>c. get_class_id d \<noteq> ClassIdReturns (Some c) \<Longrightarrow> get_label d = LabelInt i \<Longrightarrow>
   resolve_class_id d = Some i"
  by (cases "get_class_id d") (auto simp: resolve_class_id_def split: option.splits)

lemma label_table:
  "map_of LABEL_TO_CLASS l =
     (if l = ''person'' then Some 0
      else if l = ''car'' \<or> l = ''automobile'' then Some 2
      else if l = ''motorcycle'' \<or> l = ''motorbike'' then Some 3
      else if l = ''bus'' then Some 5
      else if l = ''truck'' \<or> l = ''lorry'' then Some 7
      else None)"
  by (simp add: LABEL_TO_CLASS_def)

lemma process_in_roi:
  "resolve_class_id d = Some c \<Longrightarrow> get_bbox d = Some b \<Longrightarrow> bbox_in_roi r w h b \<Longrightarrow>
   process_detection r w h cs d =
     Inr (if c = 0 then cs\<lparr>persons := persons cs + 1, total := total cs + 1\<rparr>
          else if c \<in> {2, 3, 5, 7} then cs\<lparr>vehicles := vehicles cs + 1, total := total cs + 1\<rparr>
          else cs\<lparr>total := total cs + 1\<rparr>)"
  by (simp add: process_detection_def COCO_PERSON_def COCO_VEHICLES_def Let_def)

lemma process_skipped: "resolve_class_id d = None \<Longrightarrow> process_detection r w h cs d = Inr cs"
  by (simp add: process_detection_def)

text \<open>
  Claim C2. A class id returned by \<^verbatim>\<open>get_class_id\<close> is the class of the detection,
  whatever its label. Only when there is none (the attribute is missing, the call raises
  or returns \<^verbatim>\<open>None\<close>) is a string label looked up, in lower case: \<^verbatim>\<open>person\<close> gives the
  person class 0, \<^verbatim>\<open>car\<close>, \<^verbatim>\<open>automobile\<close>, \<^verbatim>\<open>motorcycle\<close>, \<^verbatim>\<open>motorbike\<close>, \<^verbatim>\<open>bus\<close>, \<^verbatim>\<open>truck\<close>
  and \<^verbatim>\<open>lorry\<close> give one of the vehicle classes 2, 3, 5, 7, and any other string gives no
  class (an integer label is taken as the class id). A detection of class 0 in the region is counted as a person, one of class 2, 3,
  5 or 7 as a vehicle. A detection with no class id and no known label (the label call
  raises, or the label is neither a string nor an integer, or it is an unknown string)
  is skipped: no counter changes.
\<close>

theorem classification_counts:
  "(get_class_id d = ClassIdReturns (Some c) \<longrightarrow> resolve_class_id d = Some c)
 \<and> ((\<forall>c. get_class_id d \<noteq> ClassIdReturns (Some c)) \<and> get_label d = LabelStr l \<longrightarrow>
      resolve_class_id d =
        (if lower l = ''person'' then Some COCO_PERSON
         else if lower l = ''car'' \<or> lower l = ''automobile'' then Some 2
         else if lower l = ''motorcycle'' \<or> lower l = ''motorbike'' then Some 3
         else if lower l = ''bus'' then Some 5
         else if lower l = ''truck'' \<or> lower l = ''lorry'' then Some 7
         else None))
 \<and> ((\<forall>c. get_class_id d \<noteq> ClassIdReturns (Some c)) \<and> get_label d = LabelInt i \<longrightarrow>
      resolve_class_id d = Some i)
 \<and> (resolve_class_id d = Some COCO_PERSON \<and> get_bbox d = Some b \<and> bbox_in_roi r w h b \<longrightarrow>
      process_detection r w h cs d
        = Inr (cs\<lparr>persons := persons cs + 1, total := total cs + 1\<rparr>))
 \<and> ((\<exists>v \<in> set COCO_VEHICLES. resolve_class_id d = Some v) \<and> get_bbox d = Some b \<and>
      bbox_in_roi r w h b \<longrightarrow>
      process_detection r w h cs d
        = Inr (cs\<lparr>vehicles := vehicles cs + 1, total := total cs + 1\<rparr>))
 \<and> ((\<forall>c. get_class_id d \<noteq> ClassIdReturns (Some c)) \<and>
      (get_label d = LabelRaises \<or> get_label d = LabelOther \<or>
       (get_label d = LabelStr l \<and> lower l \<notin> fst ` set LABEL_TO_CLASS)) \<longrightarrow>
      resolve_class_id d = None \<and> process_detection r w h cs d = Inr cs)"
proof -
  have a: "get_class_id d = ClassIdReturns (Some c) \<longrightarrow> resolve_class_id d = Some c"
    by (simp add: resolve_numeric)
  have b: "(\<forall>c. get_class_id d \<noteq> ClassIdReturns (Some c)) \<and> get_label d = LabelStr l \<longrightarrow>
      resolve_class_id d =
        (if lower l = ''person'' then Some COCO_PERSON
         else if lower l = ''car'' \<or> lower l = ''automobile'' then Some 2
         else if lower l = ''motorcycle'' \<or> lower l = ''motorbike'' then Some 3
         else if lower l = ''bus'' then Some 5
         else if lower l = ''truck'' \<or> lower l = ''lorry'' then Some 7
         else None)"
    using resolve_label [of d l] label_table [of "lower l"]
    unfolding COCO_PERSON_def by presburger
  have i: "(\<forall>c. get_class_id d \<noteq> ClassIdReturns (Some c)) \<and> get_label d = LabelInt i \<longrightarrow>
      resolve_class_id d = Some i"
    using resolve_int_label [of d i] by blast
  have p: "resolve_class_id d = Some COCO_PERSON \<and> get_bbox d = Some b \<and> bbox_in_roi r w h b \<longrightarrow>
      process_detection r w h cs d
        = Inr (cs\<lparr>persons := persons cs + 1, total := total cs + 1\<rparr>)"
    using process_in_roi [of d 0 b r w h cs] by (simp add: COCO_PERSON_def)
  have v: "(\<exists>v \<in> set COCO_VEHICLES. resolve_class_id d = Some v) \<and> get_bbox d = Some b \<and>
      bbox_in_roi r w h b \<longrightarrow>
      process_detection r w h cs d
        = Inr (cs\<lparr>vehicles := vehicles cs + 1, total := total cs + 1\<rparr>)"
    by (auto simp: COCO_VEHICLES_def process_in_roi)
  have n: "(\<forall>c. get_class_id d \<noteq> ClassIdReturns (Some c)) \<and>
      (get_label d = LabelRaises \<or> get_label d = LabelOther \<or>
       (get_label d = LabelStr l \<and> lower l \<notin> fst ` set LABEL_TO_CLASS)) \<longrightarrow>
      resolve_class_id d = None \<and> process_detection r w h cs d = Inr cs"
  proof
    assume h: "(\<forall>c. get_class_id d \<noteq> ClassIdReturns (Some c)) \<and>
      (get_label d = LabelRaises \<or> get_label d = LabelOther \<or>
       (get_label d = LabelStr l \<and> lower l \<notin> fst ` set LABEL_TO_CLASS))"
    then have "resolve_class_id d = None"
      using resolve_no_label [of d] resolve_label [of d l]
      by (auto simp: map_of_eq_None_iff)
    then show "resolve_class_id d = None \<and> process_detection r w h cs d = Inr cs"
      by (simp add: process_skipped)
  qed
  show ?thesis using a b i p v n by blast
qed

text \<open>
  In the region from a quarter to three quarters of a 640 by 640 frame, with a box
  inside it: a detection of class id 0 labelled \<^verbatim>\<open>car\<close> is counted as a person, one
  without a class id labelled \<^verbatim>\<open>TRUCK\<close> as a vehicle, and one without a class id labelled
  \<^verbatim>\<open>Dog\<close> is skipped.
\<close>

theorem classification_counts_witness:
  "process_detection \<lparr>x1 = 1/4, y1 = 1/4, x2 = 3/4, y2 = 3/4, name = ''entrance''\<rparr> 640 640
     \<lparr>persons = 0, vehicles = 0, total = 0\<rparr>
     \<lparr>get_class_id = ClassIdReturns (Some 0), get_label = LabelStr ''car'',
      get_bbox = Some \<lparr>xmin = 3/8, ymin = 3/8, xmax = 1/2, ymax = 1/2\<rparr>\<rparr>
     = Inr \<lparr>persons = 1, vehicles = 0, total = 1\<rparr>
   \<and> process_detection \<lparr>x1 = 1/4, y1 = 1/4, x2 = 3/4, y2 = 3/4, name = ''entrance''\<rparr> 640 640
     \<lparr>persons = 0, vehicles = 0, total = 0\<rparr>
     \<lparr>get_class_id = NoAttr, get_label = LabelStr ''TRUCK'',
      get_bbox = Some \<lparr>xmin = 3/8, ymin = 3/8, xmax = 1/2, ymax = 1/2\<rparr>\<rparr>
     = Inr \<lparr>persons = 0, vehicles = 1, total = 1\<rparr>
   \<and> process_detection \<lparr>x1 = 1/4, y1 = 1/4, x2 = 3/4, y2 = 3/4, name = ''entrance''\<rparr> 640 640
     \<lparr>persons = 0, vehicles = 0, total = 0\<rparr>
     \<lparr>get_class_id = ClassIdReturns None, get_label = LabelStr ''Dog'',
      get_bbox = Some \<lparr>xmin = 3/8, ymin = 3/8, xmax = 1/2, ymax = 1/2\<rparr>\<rparr>
     = Inr \<lparr>persons = 0, vehicles = 0, total = 0\<rparr>"
proof -
  let ?r = "\<lparr>x1 = 1/4, y1 = 1/4, x2 = 3/4, y2 = 3/4, name = ''entrance''\<rparr>"
  let ?b = "\<lparr>xmin = 3/8, ymin = 3/8, xmax = 1/2, ymax = 1/2\<rparr>"
  let ?cs = "\<lparr>persons = 0, vehicles = 0, total = 0\<rparr>"
  let ?d1 = "\<lparr>get_class_id = ClassIdReturns (Some 0), get_label = LabelStr ''car'',
      get_bbox = Some ?b\<rparr>"
  let ?d2 = "\<lparr>get_class_id = NoAttr, get_label = LabelStr ''TRUCK'', get_bbox = Some ?b\<rparr>"
  let ?d3 = "\<lparr>get_class_id = ClassIdReturns None, get_label = LabelStr ''Dog'',
      get_bbox = Some ?b\<rparr>"
  have in_roi: "bbox_in_roi ?r 640 640 ?b"
    by (simp add: bbox_in_roi_def contains_bbox_def)
  have low: "lower ''TRUCK'' = ''truck''" "lower ''Dog'' = ''dog''"
    by (simp_all add: lower_def lower_char_def)
  have unknown: "lower ''Dog'' \<notin> fst ` set LABEL_TO_CLASS"
    by (simp add: low LABEL_TO_CLASS_def)
  have one: "process_detection ?r 640 640 ?cs ?d1 = Inr \<lparr>persons = 1, vehicles = 0, total = 1\<rparr>"
    using classification_counts [where d = ?d1 and c = 0 and b = ?b and r = ?r and w = 640
        and h = 640 and cs = ?cs] in_roi
    by (simp add: COCO_PERSON_def)
  have two: "process_detection ?r 640 640 ?cs ?d2 = Inr \<lparr>persons = 0, vehicles = 1, total = 1\<rparr>"
    using classification_counts [where d = ?d2 and l = "''TRUCK''" and b = ?b and r = ?r
        and w = 640 and h = 640 and cs = ?cs] in_roi low
    by (simp add: COCO_VEHICLES_def)
  have three: "process_detection ?r 640 640 ?cs ?d3 = Inr ?cs"
    using classification_counts [where d = ?d3 and l = "''Dog''" and r = ?r
        and w = 640 and h = 640 and cs = ?cs] unknown
    by simp
  show ?thesis using one two three by simp
qed

subsection \<open>Scanning a frame\<close>

lemma process_detection_ok:
  "persons cs + vehicles cs \<le> total cs \<Longrightarrow> process_detection r w h cs d = Inr cs' \<Longrightarrow>
   persons cs' + vehicles cs' \<le> total cs'"
  by (auto simp: process_detection_def Let_def split: option.splits if_splits)

lemma process_detections_ok:
  "persons cs + vehicles cs \<le> total cs \<Longrightarrow>
   persons (fst (process_detections r w h cs ds)) + vehicles (fst (process_detections r w h cs ds))
     \<le> total (fst (process_detections r w h cs ds))"
proof (induction ds arbitrary: cs)
  case Nil
  then show ?case by simp
next
  case (Cons d ds)
  show ?case
  proof (cases "process_detection r w h cs d")
    case (Inl e)
    then show ?thesis using Cons.prems by simp
  next
    case (Inr cs')
    then show ?thesis
      using Cons.IH [OF process_detection_ok [OF Cons.prems Inr]] by simp
  qed
qed

lemma scan_frame_ok:
  "persons (fst (scan_frame r w h x)) + vehicles (fst (scan_frame r w h x))
     \<le> total (fst (scan_frame r w h x))"
  using process_detections_ok [of "\<lparr>persons = 0, vehicles = 0, total = 0\<rparr>" r w h]
  by (cases x) (simp_all add: scan_frame_def)

lemma process_detections_append_raise:
  "process_detections r w h cs ds = (cs', None) \<Longrightarrow> process_detection r w h cs' d = Inl e \<Longrightarrow>
   process_detections r w h cs (ds @ d # rest) = (cs', Some e)"
  by (induction ds arbitrary: cs) (auto split: sum.splits)

subsection \<open>The probe\<close>

lemma read_caps_fields:
  "perf_monitor (read_caps s c) = perf_monitor s"
  "last_frame_time (read_caps s c) = last_frame_time s"
  "frame_count (read_caps s c) = frame_count s"
  "roi (read_caps s c) = roi s"
  by (simp_all add: read_caps_def split: option.splits prod.splits)

lemma update_statistics_fields:
  "last_frame_time (update_statistics s t i cs) = last_frame_time s"
  "frame_count (update_statistics s t i cs) = frame_count s"
  "roi (update_statistics s t i cs) = roi s"
  by (simp_all add: update_statistics_def Let_def)

lemma frame_stats_fields:
  "timestamp (frame_stats s t i cs) = t"
  "person_count (frame_stats s t i cs) = persons cs"
  "vehicle_count (frame_stats s t i cs) = vehicles cs"
  "total_detections (frame_stats s t i cs) = total cs"
  "processing_time_ms (frame_stats s t i cs) = i"
  by (simp_all add: frame_stats_def)

lemma update_statistics_monitor:
  "perf_monitor (update_statistics s t i cs) =
     (if 0 < i then record_sample (perf_monitor s) (frame_stats s t i cs) else perf_monitor s)"
  by (simp add: update_statistics_def Let_def record_sample_def frame_stats_fields)

lemma probe_last_frame_time: "last_frame_time (on_buffer_probe s f) = Some (now f)"
  by (simp add: on_buffer_probe_def Let_def update_statistics_fields read_caps_fields)

lemma probe_frame_count:
  "has_buffer f \<Longrightarrow> frame_count (on_buffer_probe s f) = frame_count s + 1"
  by (simp add: on_buffer_probe_def Let_def update_statistics_fields read_caps_fields)

lemma read_caps_size:
  "frame_width (read_caps (s\<lparr>last_frame_time := t\<rparr>) c) = frame_width (read_caps s c)"
  "frame_height (read_caps (s\<lparr>last_frame_time := t\<rparr>) c) = frame_height (read_caps s c)"
  by (simp_all add: read_caps_def split: option.splits prod.splits)

lemma probe_monitor_exact:
  "perf_monitor (on_buffer_probe s f) =
     (if has_buffer f \<and> 0 < frame_interval (last_frame_time s) (now f)
      then record_sample (perf_monitor s)
             (frame_stats s (now f) (frame_interval (last_frame_time s) (now f))
                (fst (scan_frame (roi s) (frame_width (read_caps s (caps_size f)))
                        (frame_height (read_caps s (caps_size f))) (hailo f))))
      else perf_monitor s)"
proof -
  let ?s2 = "read_caps (s\<lparr>last_frame_time := Some (now f)\<rparr>) (caps_size f)"
  have "frame_stats ?s2 t i cs = frame_stats s t i cs" for t i cs
    by (simp add: frame_stats_def read_caps_fields)
  then show ?thesis
    by (simp add: on_buffer_probe_def Let_def update_statistics_monitor read_caps_fields
          read_caps_size)
qed

lemma probe_monitor:
  "\<exists>cs. perf_monitor (on_buffer_probe s f) =
     (if has_buffer f \<and> 0 < frame_interval (last_frame_time s) (now f)
      then record_sample (perf_monitor s)
             (frame_stats s (now f) (frame_interval (last_frame_time s) (now f)) cs)
      else perf_monitor s)
   \<and> persons cs + vehicles cs \<le> total cs"
  using probe_monitor_exact [of s f]
    scan_frame_ok [of "roi s" "frame_width (read_caps s (caps_size f))"
      "frame_height (read_caps s (caps_size f))" "hailo f"]
  by blast

lemma first_frame_state:
  "perf_monitor (on_buffer_probe (RTSPROICounter_init r vw vh) f1) = PerformanceMonitor_init 100
   \<and> last_frame_time (on_buffer_probe (RTSPROICounter_init r vw vh) f1) = Some (now f1)"
  using probe_monitor [of "RTSPROICounter_init r vw vh" f1]
  by (auto simp: probe_last_frame_time RTSPROICounter_init_def frame_interval_def)

lemma probe_records:
  assumes "last_frame_time s = Some t" "has_buffer f" "t < now f"
  shows "\<exists>st. perf_monitor (on_buffer_probe s f) = record_sample (perf_monitor s) st
            \<and> processing_time_ms st = (now f - t) * 1000 \<and> timestamp st = now f"
  using assms probe_monitor [of s f]
  by (auto simp: frame_interval_def frame_stats_fields)

lemma probe_skips:
  assumes "last_frame_time s = Some t" "\<not> (has_buffer f \<and> t < now f)"
  shows "perf_monitor (on_buffer_probe s f) = perf_monitor s"
  using assms probe_monitor [of s f]
  by (auto simp: frame_interval_def mult_le_0_iff not_less)

lemma set_deque_append: "set (deque_append n xs x) \<subseteq> insert x (set xs)"
  by (cases xs) (auto simp: deque_append_def Let_def)

lemma set_record_sample:
  "set (detection_stats (record_sample pm st)) \<subseteq> insert st (set (detection_stats pm))"
  using set_deque_append [of "window_size pm" "detection_stats pm" st]
  by (simp add: record_sample_def add_detection_def add_frame_time_def)

lemma probe_samples:
  "set (detection_stats (perf_monitor (on_buffer_probe s f))) \<subseteq>
     set (detection_stats (perf_monitor s)) \<union>
     {st. person_count st + vehicle_count st \<le> total_detections st}"
proof -
  from probe_monitor [of s f] obtain cs where
    m: "perf_monitor (on_buffer_probe s f) =
     (if has_buffer f \<and> 0 < frame_interval (last_frame_time s) (now f)
      then record_sample (perf_monitor s)
             (frame_stats s (now f) (frame_interval (last_frame_time s) (now f)) cs)
      else perf_monitor s)"
    and ok: "persons cs + vehicles cs \<le> total cs"
    by blast
  show ?thesis
    using ok set_record_sample [of "perf_monitor s"
        "frame_stats s (now f) (frame_interval (last_frame_time s) (now f)) cs"]
    unfolding m by (auto simp: frame_stats_fields)
qed

lemma probes_invariant:
  "\<forall>st \<in> set (detection_stats (perf_monitor s)).
      person_count st + vehicle_count st \<le> total_detections st \<Longrightarrow>
   \<forall>st \<in> set (detection_stats (perf_monitor (foldl on_buffer_probe s fs))).
      person_count st + vehicle_count st \<le> total_detections st"
proof (induction fs arbitrary: s)
  case Nil
  then show ?case by simp
next
  case (Cons f fs)
  have "\<forall>st \<in> set (detection_stats (perf_monitor (on_buffer_probe s f))).
      person_count st + vehicle_count st \<le> total_detections st"
    using Cons.prems probe_samples [of s f] by blast
  from Cons.IH [OF this] show ?case by simp
qed

lemmas probe_eval =
  on_buffer_probe_def RTSPROICounter_init_def PerformanceMonitor_init_def frame_interval_def
  read_caps_def update_statistics_def frame_stats_def add_detection_def add_frame_time_def
  deque_append_def scan_frame_def process_detection_def resolve_class_id_def
  bbox_in_roi_def contains_bbox_def COCO_PERSON_def COCO_VEHICLES_def Let_def

text \<open>
  Claim C3 says the second frame always produces a sample with a positive interval. The
  interval is the difference of two readings of the wall clock, and a sample is recorded
  only when it is positive: when the clock was set back between the first two frames
  (100 s, then 99 s), the second frame records nothing.
\<close>

theorem second_frame_clock_set_back_counterexample:
  "detection_stats (perf_monitor
     (on_buffer_probe
       (on_buffer_probe
         (RTSPROICounter_init \<lparr>x1 = 1/4, y1 = 1/4, x2 = 3/4, y2 = 3/4, name = ''entrance''\<rparr>
            None None)
         \<lparr>now = 100, has_buffer = True, caps_size = None, hailo = Detections []\<rparr>)
       \<lparr>now = 99, has_buffer = True, caps_size = None, hailo = Detections []\<rparr>)) = []"
  by (simp add: probe_eval)

text \<open>
  Claim C3, amended. For the first two frames the probe processes (two consecutive calls
  that each carry a buffer), the first frame never records a sample, and the second
  frame records exactly one sample, whose interval is the time since the first frame in
  milliseconds and is strictly positive, when its timestamp is strictly later than the
  first frame's; when it is not later, the second frame records none.
\<close>

theorem second_frame_sample:
  assumes "has_buffer f1" and "has_buffer f2"
  shows "frame_count (on_buffer_probe (RTSPROICounter_init r vw vh) f1) = 1
 \<and> detection_stats (perf_monitor (on_buffer_probe (RTSPROICounter_init r vw vh) f1)) = []
 \<and> frame_times (perf_monitor (on_buffer_probe (RTSPROICounter_init r vw vh) f1)) = []
 \<and> frame_count (on_buffer_probe (on_buffer_probe (RTSPROICounter_init r vw vh) f1) f2) = 2
 \<and> (now f1 < now f2 \<longrightarrow>
      (\<exists>st. detection_stats
               (perf_monitor (on_buffer_probe (on_buffer_probe (RTSPROICounter_init r vw vh) f1) f2))
               = [st]
          \<and> frame_times
               (perf_monitor (on_buffer_probe (on_buffer_probe (RTSPROICounter_init r vw vh) f1) f2))
               = [processing_time_ms st]
          \<and> processing_time_ms st = (now f2 - now f1) * 1000
          \<and> 0 < processing_time_ms st))
 \<and> (\<not> now f1 < now f2 \<longrightarrow>
      detection_stats
        (perf_monitor (on_buffer_probe (on_buffer_probe (RTSPROICounter_init r vw vh) f1) f2))
        = [])"
proof -
  let ?s0 = "RTSPROICounter_init r vw vh"
  let ?s1 = "on_buffer_probe ?s0 f1"
  have s1: "perf_monitor ?s1 = PerformanceMonitor_init 100" "last_frame_time ?s1 = Some (now f1)"
    using first_frame_state [of r vw vh f1] by blast+
  have n0: "frame_count ?s0 = 0"
    by (simp add: RTSPROICounter_init_def)
  have n1: "frame_count ?s1 = 1"
    using probe_frame_count [OF assms(1), of ?s0] n0 by simp
  have n2: "frame_count (on_buffer_probe ?s1 f2) = 2"
    using probe_frame_count [OF assms(2), of ?s1] n1 by simp
  have a: "detection_stats (perf_monitor ?s1) = []" "frame_times (perf_monitor ?s1) = []"
    by (simp_all add: s1 PerformanceMonitor_init_def)
  have b: "\<exists>st. detection_stats (perf_monitor (on_buffer_probe ?s1 f2)) = [st]
          \<and> frame_times (perf_monitor (on_buffer_probe ?s1 f2)) = [processing_time_ms st]
          \<and> processing_time_ms st = (now f2 - now f1) * 1000
          \<and> 0 < processing_time_ms st"
    if h: "now f1 < now f2"
  proof -
    from probe_records [OF s1(2) assms(2) h] obtain st where
      st: "perf_monitor (on_buffer_probe ?s1 f2) = record_sample (perf_monitor ?s1) st"
          "processing_time_ms st = (now f2 - now f1) * 1000"
      by blast
    have "0 < processing_time_ms st" using h st(2) by simp
    moreover have "detection_stats (perf_monitor (on_buffer_probe ?s1 f2)) = [st]"
      "frame_times (perf_monitor (on_buffer_probe ?s1 f2)) = [processing_time_ms st]"
      unfolding st(1) s1(1)
      by (simp_all add: record_sample_def add_detection_def add_frame_time_def
            PerformanceMonitor_init_def deque_append_def)
    ultimately show ?thesis using st(2) by blast
  qed
  have c: "detection_stats (perf_monitor (on_buffer_probe ?s1 f2)) = []"
    if "\<not> now f1 < now f2"
    using probe_skips [OF s1(2), of f2] that a(1) by simp
  show ?thesis using n1 n2 a b c by blast
qed

text \<open>Two frames one second apart, each with a buffer and without detections.\<close>

theorem second_frame_sample_witness:
  "has_buffer \<lparr>now = 100, has_buffer = True, caps_size = None, hailo = Detections []\<rparr>
   \<and> has_buffer \<lparr>now = 101, has_buffer = True, caps_size = None, hailo = Detections []\<rparr>
   \<and> now \<lparr>now = 100, has_buffer = True, caps_size = None, hailo = Detections []\<rparr>
       < now \<lparr>now = 101, has_buffer = True, caps_size = None, hailo = Detections []\<rparr>
   \<and> detection_stats (perf_monitor
       (on_buffer_probe
         (RTSPROICounter_init \<lparr>x1 = 1/4, y1 = 1/4, x2 = 3/4, y2 = 3/4, name = ''entrance''\<rparr>
            None None)
         \<lparr>now = 100, has_buffer = True, caps_size = None, hailo = Detections []\<rparr>)) = []
   \<and> detection_stats (perf_monitor
       (on_buffer_probe
         (on_buffer_probe
           (RTSPROICounter_init \<lparr>x1 = 1/4, y1 = 1/4, x2 = 3/4, y2 = 3/4, name = ''entrance''\<rparr>
              None None)
           \<lparr>now = 100, has_buffer = True, caps_size = None, hailo = Detections []\<rparr>)
         \<lparr>now = 101, has_buffer = True, caps_size = None, hailo = Detections []\<rparr>))
     = [\<lparr>timestamp = 101, person_count = 0, vehicle_count = 0, total_detections = 0,
         processing_time_ms = 1000, roi_name = ''entrance''\<rparr>]"
proof -
  let ?f1 = "\<lparr>now = 100, has_buffer = True, caps_size = None, hailo = Detections []\<rparr>"
  let ?f2 = "\<lparr>now = 101, has_buffer = True, caps_size = None, hailo = Detections []\<rparr>"
  have b1: "has_buffer ?f1" and b2: "has_buffer ?f2" by simp_all
  show ?thesis
    using second_frame_sample [OF b1 b2,
        of "\<lparr>x1 = 1/4, y1 = 1/4, x2 = 3/4, y2 = 3/4, name = ''entrance''\<rparr>" None None]
    by (simp add: probe_eval)
qed

text \<open>
  Claim C8 says a frame whose scan raises yields zero counts. The counters are set to
  zero before the \<^verbatim>\<open>try\<close> statement and keep what was counted before the exception: a
  person in the region followed by a detection whose \<^verbatim>\<open>get_bbox\<close> raises gives a sample
  with one person and a total of one.
\<close>

theorem scan_exception_counterexample:
  "scan_frame \<lparr>x1 = 1/4, y1 = 1/4, x2 = 3/4, y2 = 3/4, name = ''entrance''\<rparr> 640 640
     (Detections
        [\<lparr>get_class_id = ClassIdReturns (Some 0), get_label = LabelStr ''person'',
          get_bbox = Some \<lparr>xmin = 3/8, ymin = 3/8, xmax = 1/2, ymax = 1/2\<rparr>\<rparr>,
         \<lparr>get_class_id = ClassIdReturns (Some 0), get_label = LabelStr ''person'',
          get_bbox = None\<rparr>])
     = (\<lparr>persons = 1, vehicles = 0, total = 1\<rparr>, Some OtherException)
   \<and> detection_stats (perf_monitor
       (on_buffer_probe
         (on_buffer_probe
           (RTSPROICounter_init \<lparr>x1 = 1/4, y1 = 1/4, x2 = 3/4, y2 = 3/4, name = ''entrance''\<rparr>
              None None)
           \<lparr>now = 100, has_buffer = True, caps_size = None, hailo = Detections []\<rparr>)
         \<lparr>now = 101, has_buffer = True, caps_size = None,
          hailo = Detections
            [\<lparr>get_class_id = ClassIdReturns (Some 0), get_label = LabelStr ''person'',
              get_bbox = Some \<lparr>xmin = 3/8, ymin = 3/8, xmax = 1/2, ymax = 1/2\<rparr>\<rparr>,
             \<lparr>get_class_id = ClassIdReturns (Some 0), get_label = LabelStr ''person'',
              get_bbox = None\<rparr>]\<rparr>))
     = [\<lparr>timestamp = 101, person_count = 1, vehicle_count = 0, total_detections = 1,
         processing_time_ms = 1000, roi_name = ''entrance''\<rparr>]"
  by (simp add: probe_eval)

text \<open>
  Claim C8, amended. An exception raised while a frame's detections are scanned is caught
  inside the probe: the call completes (the frame counter advances and the timestamp is
  kept) and the frame's sample carries the counters as they were when the exception was
  raised, that is, the counts of the detections scanned before it. They are zero when
  the import of the Hailo module or the reading of the detection list fails.
\<close>

theorem scan_exception_keeps_counts:
  "(has_buffer f \<longrightarrow>
      frame_count (on_buffer_probe s f) = frame_count s + 1
      \<and> last_frame_time (on_buffer_probe s f) = Some (now f))
 \<and> (has_buffer f \<and> last_frame_time s = Some t \<and> t < now f \<longrightarrow>
      perf_monitor (on_buffer_probe s f) =
        record_sample (perf_monitor s)
          (frame_stats s (now f) ((now f - t) * 1000)
             (fst (scan_frame (roi s) (frame_width (read_caps s (caps_size f)))
                     (frame_height (read_caps s (caps_size f))) (hailo f)))))
 \<and> (x = ImportFails \<or> x = GetDetectionsRaises \<longrightarrow>
      fst (scan_frame r w h x) = \<lparr>persons = 0, vehicles = 0, total = 0\<rparr>
      \<and> snd (scan_frame r w h x) \<noteq> None)
 \<and> (scan_frame r w h (Detections ds) = (cs, None) \<and> process_detection r w h cs d = Inl e \<longrightarrow>
      scan_frame r w h (Detections (ds @ d # rest)) = (cs, Some e))"
proof -
  have a: "has_buffer f \<longrightarrow>
      frame_count (on_buffer_probe s f) = frame_count s + 1
      \<and> last_frame_time (on_buffer_probe s f) = Some (now f)"
    by (simp add: probe_frame_count probe_last_frame_time)
  have b: "has_buffer f \<and> last_frame_time s = Some t \<and> t < now f \<longrightarrow>
      perf_monitor (on_buffer_probe s f) =
        record_sample (perf_monitor s)
          (frame_stats s (now f) ((now f - t) * 1000)
             (fst (scan_frame (roi s) (frame_width (read_caps s (caps_size f)))
                     (frame_height (read_caps s (caps_size f))) (hailo f))))"
    using probe_monitor_exact [of s f] by (auto simp: frame_interval_def)
  have c: "x = ImportFails \<or> x = GetDetectionsRaises \<longrightarrow>
      fst (scan_frame r w h x) = \<lparr>persons = 0, vehicles = 0, total = 0\<rparr>
      \<and> snd (scan_frame r w h x) \<noteq> None"
    by (auto simp: scan_frame_def)
  have d: "scan_frame r w h (Detections ds) = (cs, None) \<and> process_detection r w h cs d = Inl e
      \<longrightarrow> scan_frame r w h (Detections (ds @ d # rest)) = (cs, Some e)"
    using process_detections_append_raise
      [of r w h "\<lparr>persons = 0, vehicles = 0, total = 0\<rparr>" ds cs d e rest]
    by (simp add: scan_frame_def)
  show ?thesis using a b c d by blast
qed

text \<open>
  A frame for which the detection list cannot be read gives zero counts; a person in the
  region scanned before a detection whose \<^verbatim>\<open>get_bbox\<close> raises stays counted.
\<close>

theorem scan_exception_keeps_counts_witness:
  "fst (scan_frame \<lparr>x1 = 1/4, y1 = 1/4, x2 = 3/4, y2 = 3/4, name = ''entrance''\<rparr> 640 640
          GetDetectionsRaises) = \<lparr>persons = 0, vehicles = 0, total = 0\<rparr>
   \<and> scan_frame \<lparr>x1 = 1/4, y1 = 1/4, x2 = 3/4, y2 = 3/4, name = ''entrance''\<rparr> 640 640
       (Detections
          ([\<lparr>get_class_id = ClassIdReturns (Some 0), get_label = LabelStr ''person'',
             get_bbox = Some \<lparr>xmin = 3/8, ymin = 3/8, xmax = 1/2, ymax = 1/2\<rparr>\<rparr>] @
           \<lparr>get_class_id = ClassIdReturns (Some 0), get_label = LabelStr ''person'',
            get_bbox = None\<rparr> # []))
     = (\<lparr>persons = 1, vehicles = 0, total = 1\<rparr>, Some OtherException)
   \<and> frame_count
       (on_buffer_probe
         (RTSPROICounter_init \<lparr>x1 = 1/4, y1 = 1/4, x2 = 3/4, y2 = 3/4, name = ''entrance''\<rparr>
            None None)
         \<lparr>now = 100, has_buffer = True, caps_size = None, hailo = GetDetectionsRaises\<rparr>) = 1"
proof -
  let ?r = "\<lparr>x1 = 1/4, y1 = 1/4, x2 = 3/4, y2 = 3/4, name = ''entrance''\<rparr>"
  let ?d1 = "\<lparr>get_class_id = ClassIdReturns (Some 0), get_label = LabelStr ''person'',
             get_bbox = Some \<lparr>xmin = 3/8, ymin = 3/8, xmax = 1/2, ymax = 1/2\<rparr>\<rparr>"
  let ?d2 = "\<lparr>get_class_id = ClassIdReturns (Some 0), get_label = LabelStr ''person'',
            get_bbox = None\<rparr>"
  let ?f = "\<lparr>now = 100, has_buffer = True, caps_size = None, hailo = GetDetectionsRaises\<rparr>"
  have one: "scan_frame ?r 640 640 (Detections [?d1])
      = (\<lparr>persons = 1, vehicles = 0, total = 1\<rparr>, None)"
    by (simp add: probe_eval)
  have two: "process_detection ?r 640 640 \<lparr>persons = 1, vehicles = 0, total = 1\<rparr> ?d2
      = Inl OtherException"
    by (simp add: probe_eval)
  show ?thesis
    using one two
      scan_exception_keeps_counts
        [where f = ?f and s = "RTSPROICounter_init ?r None None" and x = GetDetectionsRaises
           and r = ?r and w = 640 and h = 640 and ds = "[?d1]" and d = ?d2
           and cs = "\<lparr>persons = 1, vehicles = 0, total = 1\<rparr>" and e = OtherException
           and rest = "[]"]
    by (simp add: RTSPROICounter_init_def)
qed

text \<open>
  Claim C10. In every sample the probe records, the total of detections in the region is
  at least the sum of the person and vehicle counts; and the inequality can be strict,
  since a detection in the region whose class id is neither 0 nor one of 2, 3, 5, 7
  adds one to the total and to neither of the two counts.
\<close>

theorem total_bounds_person_plus_vehicle:
  "(\<forall>st \<in> set (detection_stats
                 (perf_monitor (foldl on_buffer_probe (RTSPROICounter_init r vw vh) fs))).
      person_count st + vehicle_count st \<le> total_detections st)
 \<and> (resolve_class_id d = Some c \<and> c \<noteq> COCO_PERSON \<and> c \<notin> set COCO_VEHICLES \<and>
      get_bbox d = Some b \<and> bbox_in_roi r' w h b \<longrightarrow>
      process_detection r' w h cs d = Inr (cs\<lparr>total := total cs + 1\<rparr>))"
proof -
  have "\<forall>st \<in> set (detection_stats (perf_monitor (RTSPROICounter_init r vw vh))).
      person_count st + vehicle_count st \<le> total_detections st"
    by (simp add: RTSPROICounter_init_def PerformanceMonitor_init_def)
  then have inv: "\<forall>st \<in> set (detection_stats
                 (perf_monitor (foldl on_buffer_probe (RTSPROICounter_init r vw vh) fs))).
      person_count st + vehicle_count st \<le> total_detections st"
    by (rule probes_invariant)
  have strict: "resolve_class_id d = Some c \<and> c \<noteq> COCO_PERSON \<and> c \<notin> set COCO_VEHICLES \<and>
      get_bbox d = Some b \<and> bbox_in_roi r' w h b \<longrightarrow>
      process_detection r' w h cs d = Inr (cs\<lparr>total := total cs + 1\<rparr>)"
    using process_in_roi [of d c b r' w h cs]
    by (auto simp: COCO_PERSON_def COCO_VEHICLES_def)
  show ?thesis using inv strict by blast
qed

text \<open>
  A bicycle (class id 1) in the region on the second frame: the sample has a total of one
  with no person and no vehicle.
\<close>

theorem total_bounds_person_plus_vehicle_witness:
  "detection_stats (perf_monitor
     (foldl on_buffer_probe
        (RTSPROICounter_init \<lparr>x1 = 1/4, y1 = 1/4, x2 = 3/4, y2 = 3/4, name = ''entrance''\<rparr>
           None None)
        [\<lparr>now = 100, has_buffer = True, caps_size = None, hailo = Detections []\<rparr>,
         \<lparr>now = 101, has_buffer = True, caps_size = None,
          hailo = Detections
            [\<lparr>get_class_id = ClassIdReturns (Some 1), get_label = LabelStr ''bicycle'',
              get_bbox = Some \<lparr>xmin = 3/8, ymin = 3/8, xmax = 1/2, ymax = 1/2\<rparr>\<rparr>]\<rparr>]))
     = [\<lparr>timestamp = 101, person_count = 0, vehicle_count = 0, total_detections = 1,
         processing_time_ms = 1000, roi_name = ''entrance''\<rparr>]
   \<and> process_detection \<lparr>x1 = 1/4, y1 = 1/4, x2 = 3/4, y2 = 3/4, name = ''entrance''\<rparr> 640 640
       \<lparr>persons = 0, vehicles = 0, total = 0\<rparr>
       \<lparr>get_class_id = ClassIdReturns (Some 1), get_label = LabelStr ''bicycle'',
        get_bbox = Some \<lparr>xmin = 3/8, ymin = 3/8, xmax = 1/2, ymax = 1/2\<rparr>\<rparr>
     = Inr \<lparr>persons = 0, vehicles = 0, total = 1\<rparr>"
  using total_bounds_person_plus_vehicle
    [where r = "\<lparr>x1 = 1/4, y1 = 1/4, x2 = 3/4, y2 = 3/4, name = ''entrance''\<rparr>"
       and vw = None and vh = None
       and fs = "[\<lparr>now = 100, has_buffer = True, caps_size = None, hailo = Detections []\<rparr>,
         \<lparr>now = 101, has_buffer = True, caps_size = None,
          hailo = Detections
            [\<lparr>get_class_id = ClassIdReturns (Some 1), get_label = LabelStr ''bicycle'',
              get_bbox = Some \<lparr>xmin = 3/8, ymin = 3/8, xmax = 1/2, ymax = 1/2\<rparr>\<rparr>]\<rparr>]"
       and d = "\<lparr>get_class_id = ClassIdReturns (Some 1), get_label = LabelStr ''bicycle'',
              get_bbox = Some \<lparr>xmin = 3/8, ymin = 3/8, xmax = 1/2, ymax = 1/2\<rparr>\<rparr>"
       and c = 1 and b = "\<lparr>xmin = 3/8, ymin = 3/8, xmax = 1/2, ymax = 1/2\<rparr>"
       and r' = "\<lparr>x1 = 1/4, y1 = 1/4, x2 = 3/4, y2 = 3/4, name = ''entrance''\<rparr>"
       and w = 640 and h = 640 and cs = "\<lparr>persons = 0, vehicles = 0, total = 0\<rparr>"]
  by (simp add: probe_eval)

subsection \<open>The run and its exit code\<close>

lemma main_loop_returns:
  "BusMessage EOS \<in> set es \<or> KeyboardInterrupt \<in> set es \<Longrightarrow> main_loop s p es \<noteq> None"
proof (induction s p es rule: main_loop.induct)
  case (4 self probe m es)
  have ih: "\<not> snd (on_message m) \<Longrightarrow>
      BusMessage EOS \<in> set es \<or> KeyboardInterrupt \<in> set es \<Longrightarrow>
      main_loop self probe es \<noteq> None"
    using "4.IH" [of "fst (on_message m)" "snd (on_message m)"]
    by (cases "on_message m") auto
  show ?case using "4.prems" ih by (cases m) (auto split: option.splits)
qed simp_all

lemma run_failure:
  "\<not> postprocess_lib_found env \<or> \<not> parse_launch_ok env \<or> set_state_playing env = FAILURE \<Longrightarrow>
   \<exists>res. run self env = Some res \<and> exit_code (returned res) = 1"
  by (auto simp: run_def exit_code_def Let_def
        split: hailo_filter_lookup.splits option.splits prod.splits)

lemma run_clean_stop:
  assumes "postprocess_lib_found env" "parse_launch_ok env" "set_state_playing env \<noteq> FAILURE"
    and "BusMessage EOS \<in> set (events env) \<or> KeyboardInterrupt \<in> set (events env)"
  shows "\<exists>res. run self env = Some res \<and> exit_code (returned res) = 0
     \<and> pipeline_set_to_null res
     \<and> last (run_log res) = LogFinalStatistics (get_stats (perf_monitor (final_counter res)))"
proof -
  obtain self1 probe l1 where h:
    "(case hailo_filter env of
        NoElement \<Rightarrow> (self, False, [LogWarning ''Could not find hailo_filter element''])
      | NoSrcPad \<Rightarrow> (self, False, [LogWarning ''Could not get src pad from hailo_filter''])
      | SrcPad None \<Rightarrow> (self, True, [LogInfo ''Added buffer probe to hailofilter output''])
      | SrcPad (Some (w, h)) \<Rightarrow>
          (self\<lparr>frame_width := w, frame_height := h\<rparr>, True,
           [LogInfo ''Added buffer probe to hailofilter output'',
            LogInfo ''Frame dimensions from caps''])) = (self1, probe, l1)"
    by (metis prod_cases3)
  from main_loop_returns [OF assms(4), of self1 probe] obtain s' l i where
    m: "main_loop self1 probe (events env) = Some (s', l, i)"
    by (cases "main_loop self1 probe (events env)") auto
  show ?thesis
    using assms(1-3) by (simp add: run_def h m exit_code_def)
qed

text \<open>
  Claim C9. When the pipeline cannot be constructed (the post-process library is not
  found, or \<^verbatim>\<open>Gst.parse_launch\<close> fails) or the engine answers \<^verbatim>\<open>FAILURE\<close> to the start
  command, the process exits with code 1. After a successful start, an end-of-stream
  message or an operator interrupt makes \<^verbatim>\<open>run\<close> return: the pipeline is set to
  \<^verbatim>\<open>NULL\<close>, the final statistics of the monitor are the last line logged, and the process
  exits with code 0.
\<close>

theorem run_exit_codes:
  "(\<not> postprocess_lib_found env \<or> \<not> parse_launch_ok env \<or> set_state_playing env = FAILURE
      \<longrightarrow> (\<exists>res. run self env = Some res \<and> exit_code (returned res) = 1))
 \<and> (postprocess_lib_found env \<and> parse_launch_ok env \<and> set_state_playing env \<noteq> FAILURE \<and>
      (BusMessage EOS \<in> set (events env) \<or> KeyboardInterrupt \<in> set (events env))
      \<longrightarrow> (\<exists>res. run self env = Some res \<and> exit_code (returned res) = 0
            \<and> pipeline_set_to_null res
            \<and> last (run_log res)
                = LogFinalStatistics (get_stats (perf_monitor (final_counter res)))))"
  using run_failure [of env self] run_clean_stop [of env self] by blast

text \<open>
  A run whose library is missing exits with 1, as does one whose start is refused; a run
  that sees a warning, two frames one second apart and then the end of the stream exits
  with 0 after logging the statistics of its one sample; an interrupted run exits with 0.
\<close>

theorem run_exit_codes_witness:
  "map_option (exit_code \<circ> returned)
     (run (RTSPROICounter_init \<lparr>x1 = 1/4, y1 = 1/4, x2 = 3/4, y2 = 3/4, name = ''entrance''\<rparr>
             None None)
        \<lparr>postprocess_lib_found = False, parse_launch_ok = True, hailo_filter = SrcPad None,
         set_state_playing = ASYNC, events = []\<rparr>) = Some 1
   \<and> map_option (exit_code \<circ> returned)
     (run (RTSPROICounter_init \<lparr>x1 = 1/4, y1 = 1/4, x2 = 3/4, y2 = 3/4, name = ''entrance''\<rparr>
             None None)
        \<lparr>postprocess_lib_found = True, parse_launch_ok = True, hailo_filter = SrcPad None,
         set_state_playing = FAILURE, events = []\<rparr>) = Some 1
   \<and> map_option (exit_code \<circ> returned)
     (run (RTSPROICounter_init \<lparr>x1 = 1/4, y1 = 1/4, x2 = 3/4, y2 = 3/4, name = ''entrance''\<rparr>
             None None)
        \<lparr>postprocess_lib_found = True, parse_launch_ok = True, hailo_filter = SrcPad None,
         set_state_playing = ASYNC,
         events = [BusMessage WARNING,
           Buffer \<lparr>now = 100, has_buffer = True, caps_size = None, hailo = Detections []\<rparr>,
           Buffer \<lparr>now = 101, has_buffer = True, caps_size = None, hailo = Detections []\<rparr>,
           BusMessage EOS]\<rparr>) = Some 0
   \<and> map_option (last \<circ> run_log)
     (run (RTSPROICounter_init \<lparr>x1 = 1/4, y1 = 1/4, x2 = 3/4, y2 = 3/4, name = ''entrance''\<rparr>
             None None)
        \<lparr>postprocess_lib_found = True, parse_launch_ok = True, hailo_filter = SrcPad None,
         set_state_playing = ASYNC,
         events = [BusMessage WARNING,
           Buffer \<lparr>now = 100, has_buffer = True, caps_size = None, hailo = Detections []\<rparr>,
           Buffer \<lparr>now = 101, has_buffer = True, caps_size = None, hailo = Detections []\<rparr>,
           BusMessage EOS]\<rparr>)
     = Some (LogFinalStatistics
         (Some \<lparr>avg_processing_time_ms = 1000, fps = 1, total_frames = 1,
                recent_person_count = 0, recent_vehicle_count = 0\<rparr>))
   \<and> map_option (exit_code \<circ> returned)
     (run (RTSPROICounter_init \<lparr>x1 = 1/4, y1 = 1/4, x2 = 3/4, y2 = 3/4, name = ''entrance''\<rparr>
             None None)
        \<lparr>postprocess_lib_found = True, parse_launch_ok = True, hailo_filter = SrcPad None,
         set_state_playing = SUCCESS, events = [KeyboardInterrupt]\<rparr>) = Some 0"
proof -
  let ?c = "RTSPROICounter_init \<lparr>x1 = 1/4, y1 = 1/4, x2 = 3/4, y2 = 3/4, name = ''entrance''\<rparr>
             None None"
  let ?e1 = "\<lparr>postprocess_lib_found = False, parse_launch_ok = True, hailo_filter = SrcPad None,
         set_state_playing = ASYNC, events = []\<rparr>"
  let ?e2 = "\<lparr>postprocess_lib_found = True, parse_launch_ok = True, hailo_filter = SrcPad None,
         set_state_playing = FAILURE, events = []\<rparr>"
  let ?e3 = "\<lparr>postprocess_lib_found = True, parse_launch_ok = True, hailo_filter = SrcPad None,
         set_state_playing = ASYNC,
         events = [BusMessage WARNING,
           Buffer \<lparr>now = 100, has_buffer = True, caps_size = None, hailo = Detections []\<rparr>,
           Buffer \<lparr>now = 101, has_buffer = True, caps_size = None, hailo = Detections []\<rparr>,
           BusMessage EOS]\<rparr>"
  let ?e4 = "\<lparr>postprocess_lib_found = True, parse_launch_ok = True, hailo_filter = SrcPad None,
         set_state_playing = SUCCESS, events = [KeyboardInterrupt]\<rparr>"
  have one: "map_option (exit_code \<circ> returned) (run ?c ?e1) = Some 1"
    using run_exit_codes [of ?e1 ?c] by auto
  have two: "map_option (exit_code \<circ> returned) (run ?c ?e2) = Some 1"
    using run_exit_codes [of ?e2 ?c] by auto
  have three: "map_option (exit_code \<circ> returned) (run ?c ?e3) = Some 0"
    using run_exit_codes [of ?e3 ?c] by auto
  have four: "map_option (exit_code \<circ> returned) (run ?c ?e4) = Some 0"
    using run_exit_codes [of ?e4 ?c] by auto
  have stats: "map_option (last \<circ> run_log) (run ?c ?e3)
     = Some (LogFinalStatistics
         (Some \<lparr>avg_processing_time_ms = 1000, fps = 1, total_frames = 1,
                recent_person_count = 0, recent_vehicle_count = 0\<rparr>))"
    by (simp add: run_def probe_eval get_stats_def py_round_def round_half_even_def last_n_def)
  show ?thesis using one two three four stats by simp
qed

end
